theory Spec2Isabelle
  imports Main "HOL-Library.AList"
begin

section \<open>Python values\<close>

text \<open>
  A webhook payload is whatever \<^verbatim>\<open>json\<close> decoding yields, and the code reads it
  dynamically, so the values are one datatype. \<open>JNull\<close> is \<^verbatim>\<open>None\<close>. A \<^verbatim>\<open>str\<close> is a
  HOL string (code points below 256; case mapping is modelled for ASCII, other characters
  are left as they are). A \<^verbatim>\<open>float\<close> is carried by its \<^verbatim>\<open>repr\<close> text, which
  identifies it; \<^verbatim>\<open>0.0\<close> and \<^verbatim>\<open>-0.0\<close> are the falsy ones. A \<^verbatim>\<open>dict\<close> is an association
  list in insertion order; a lookup takes the first entry of a key (a dict has one).
\<close>

datatype json =
    JNull
  | JBool bool
  | JInt int
  | JFloat string
  | JStr string
  | JList "json list"
  | JDict "(string \<times> json) list"

fun truthy :: "json \<Rightarrow> bool" where
  "truthy JNull = False"
| "truthy (JBool b) = b"
| "truthy (JInt n) = (n \<noteq> 0)"
| "truthy (JFloat r) = (r \<noteq> ''0.0'' \<and> r \<noteq> ''-0.0'')"
| "truthy (JStr s) = (s \<noteq> [])"
| "truthy (JList xs) = (xs \<noteq> [])"
| "truthy (JDict kvs) = (kvs \<noteq> [])"

fun is_dict :: "json \<Rightarrow> bool" where
  "is_dict (JDict kvs) = True"
| "is_dict _ = False"

fun is_str :: "json \<Rightarrow> bool" where
  "is_str (JStr s) = True"
| "is_str _ = False"

fun type_name :: "json \<Rightarrow> string" where
  "type_name JNull = ''NoneType''"
| "type_name (JBool b) = ''bool''"
| "type_name (JInt n) = ''int''"
| "type_name (JFloat r) = ''float''"
| "type_name (JStr s) = ''str''"
| "type_name (JList xs) = ''list''"
| "type_name (JDict kvs) = ''dict''"

definition hex_digit :: "nat \<Rightarrow> char" where
  "hex_digit n = (if n < 10 then char_of (48 + n) else char_of (87 + n))"

fun str_nat :: "nat \<Rightarrow> string" where
  "str_nat n = (if n < 10 then [char_of (48 + n)] else str_nat (n div 10) @ [char_of (48 + n mod 10)])"

declare str_nat.simps [simp del]

definition str_int :: "int \<Rightarrow> string" where
  "str_int i = (if i < 0 then CHR ''-'' # str_nat (nat (- i)) else str_nat (nat i))"

definition isprintable :: "char \<Rightarrow> bool" where
  "isprintable c = (let n = (of_char c :: nat) in
     (32 \<le> n \<and> n < 127) \<or> (161 \<le> n \<and> n \<noteq> 173))"

definition repr_char :: "char \<Rightarrow> char \<Rightarrow> string" where
  "repr_char q c =
     (if c = q \<or> c = CHR 0x5C then [CHR 0x5C, c]
      else if c = CHR 0x09 then [CHR 0x5C, CHR ''t'']
      else if c = CHR 0x0A then [CHR 0x5C, CHR ''n'']
      else if c = CHR 0x0D then [CHR 0x5C, CHR ''r'']
      else if \<not> isprintable c then
        [CHR 0x5C, CHR ''x'', hex_digit (of_char c div 16), hex_digit (of_char c mod 16)]
      else [c])"

definition repr_str :: "string \<Rightarrow> string" where
  "repr_str s =
     (let q = (if CHR 0x27 \<in> set s \<and> CHR 0x22 \<notin> set s then CHR 0x22 else CHR 0x27)
      in [q] @ concat (map (repr_char q) s) @ [q])"

fun join :: "string \<Rightarrow> string list \<Rightarrow> string" where
  "join sep [] = []"
| "join sep [x] = x"
| "join sep (x # y # ys) = x @ sep @ join sep (y # ys)"

fun py_repr :: "json \<Rightarrow> string" where
  "py_repr JNull = ''None''"
| "py_repr (JBool b) = (if b then ''True'' else ''False'')"
| "py_repr (JInt n) = str_int n"
| "py_repr (JFloat r) = r"
| "py_repr (JStr s) = repr_str s"
| "py_repr (JList xs) = ''['' @ join '', '' (map py_repr xs) @ '']''"
| "py_repr (JDict kvs) =
     ''{'' @ join '', '' (map (\<lambda>kv. repr_str (fst kv) @ '': '' @ py_repr (snd kv)) kvs) @ ''}''"

fun py_str :: "json \<Rightarrow> string" where
  "py_str (JStr s) = s"
| "py_str v = py_repr v"


text \<open>String methods. \<^verbatim>\<open>str.isspace\<close> holds of the ASCII white space (tab to carriage
  return, the four separators 0x1C to 0x1F, the blank) and of 0x85 and 0xA0.\<close>

definition upper_char :: "char \<Rightarrow> char" where
  "upper_char c = (let n = (of_char c :: nat) in if 97 \<le> n \<and> n \<le> 122 then char_of (n - 32) else c)"

definition lower_char :: "char \<Rightarrow> char" where
  "lower_char c = (let n = (of_char c :: nat) in if 65 \<le> n \<and> n \<le> 90 then char_of (n + 32) else c)"

definition py_upper :: "string \<Rightarrow> string" where
  "py_upper s = map upper_char s"

definition py_lower :: "string \<Rightarrow> string" where
  "py_lower s = map lower_char s"

definition isspace :: "char \<Rightarrow> bool" where
  "isspace c = (let n = (of_char c :: nat) in
     (9 \<le> n \<and> n \<le> 13) \<or> (28 \<le> n \<and> n \<le> 32) \<or> n = 133 \<or> n = 160)"

definition py_strip :: "string \<Rightarrow> string" where
  "py_strip s = rev (dropWhile isspace (rev (dropWhile isspace s)))"

text \<open>Exceptions are values. Each carries the text that \<^verbatim>\<open>str(e)\<close> gives.\<close>

datatype error =
    AttributeError string
  | KeyError string
  | ValueError string
  | TypeError string
  | IntegrityError string
  | DoesNotExist string
  | MultipleObjectsReturned string
  | ValidationError string
  | CollectionError string
  | WebhookError string
  | PayWithAccountError string
  | ConnectionError string

fun exc_str :: "error \<Rightarrow> string" where
  "exc_str (AttributeError m) = m"
| "exc_str (KeyError m) = m"
| "exc_str (ValueError m) = m"
| "exc_str (TypeError m) = m"
| "exc_str (IntegrityError m) = m"
| "exc_str (DoesNotExist m) = m"
| "exc_str (MultipleObjectsReturned m) = m"
| "exc_str (ValidationError m) = m"
| "exc_str (CollectionError m) = m"
| "exc_str (WebhookError m) = m"
| "exc_str (PayWithAccountError m) = m"
| "exc_str (ConnectionError m) = m"

definition no_attribute :: "json \<Rightarrow> string \<Rightarrow> error" where
  "no_attribute v a =
     AttributeError ([CHR 0x27] @ type_name v @ [CHR 0x27] @ '' object has no attribute '' @
                     [CHR 0x27] @ a @ [CHR 0x27])"

text \<open>\<^verbatim>\<open>obj.get(key, default)\<close>: a method of dicts only; on any other value the
  attribute lookup raises.\<close>

fun dict_get :: "json \<Rightarrow> string \<Rightarrow> json \<Rightarrow> error + json" where
  "dict_get (JDict kvs) key dflt = Inr (case map_of kvs key of None \<Rightarrow> dflt | Some v \<Rightarrow> v)"
| "dict_get v key dflt = Inl (no_attribute v ''get'')"

text \<open>\<^verbatim>\<open>s.upper()\<close> and \<^verbatim>\<open>s.lower()\<close> on a value that may not be a \<^verbatim>\<open>str\<close>.\<close>

fun str_upper :: "json \<Rightarrow> error + string" where
  "str_upper (JStr s) = Inr (py_upper s)"
| "str_upper v = Inl (no_attribute v ''upper'')"

fun str_lower :: "json \<Rightarrow> error + string" where
  "str_lower (JStr s) = Inr (py_lower s)"
| "str_lower v = Inl (no_attribute v ''lower'')"

text \<open>\<^verbatim>\<open>a or b\<close>: the first operand if it is truthy, else the second; an exception in
  the first operand leaves the expression before the second is evaluated.\<close>

definition py_or :: "error + json \<Rightarrow> error + json \<Rightarrow> error + json" where
  "py_or a b = (case a of Inl e \<Rightarrow> Inl e | Inr v \<Rightarrow> if truthy v then Inr v else b)"

section \<open>The collection state machine\<close>

text \<open>
  \<^verbatim>\<open>IdempotentCollectionUpdate\<close> exists twice, in
  \<^verbatim>\<open>core_apps/collections/idempotency.py\<close> (the one the collections service
  imports) and in \<^verbatim>\<open>core_apps/webhooks/idempotency.py\<close>. Both are embedded.
  A status is a Python \<^verbatim>\<open>str\<close>. The class constants are a dict and a set of
  strings; \<^verbatim>\<open>dict.get(key, 0)\<close> is the lookup with a default.
\<close>

definition STATUS_HIERARCHY :: "(string \<times> nat) list" where
  "STATUS_HIERARCHY =
     [(''INITIATED'', 1), (''PENDING'', 2), (''PROCESSING'', 3), (''SUCCESS'', 4), (''FAILED'', 4)]"

definition TERMINAL_STATUSES :: "string list" where
  "TERMINAL_STATUSES = [''SUCCESS'', ''FAILED'']"

definition hierarchy_get :: "string \<Rightarrow> nat \<Rightarrow> nat" where
  "hierarchy_get s d = (case map_of STATUS_HIERARCHY s of None \<Rightarrow> d | Some n \<Rightarrow> n)"

text \<open>\<^verbatim>\<open>should_update\<close> of \<^verbatim>\<open>collections/idempotency.py\<close>. The body compares
  strings, tests membership in a set of strings and reads a dict with a default; the two
  early returns after logging are the two \<open>False\<close> branches.\<close>

definition should_update :: "string \<Rightarrow> string \<Rightarrow> bool \<Rightarrow> bool" where
  "should_update current_status new_status allow_override =
     (if current_status = new_status then True
      else if allow_override then True
      else if current_status \<in> set TERMINAL_STATUSES then False
      else (let current_level = hierarchy_get current_status 0;
                new_level = hierarchy_get new_status 0
            in if new_level < current_level then False else True))"

text \<open>The copy in \<^verbatim>\<open>webhooks/idempotency.py\<close>, with its own class constants.\<close>

definition webhooks_STATUS_HIERARCHY :: "(string \<times> nat) list" where
  "webhooks_STATUS_HIERARCHY =
     [(''INITIATED'', 1), (''PENDING'', 2), (''PROCESSING'', 3), (''SUCCESS'', 4), (''FAILED'', 4)]"

definition webhooks_TERMINAL_STATUSES :: "string list" where
  "webhooks_TERMINAL_STATUSES = [''SUCCESS'', ''FAILED'']"

definition webhooks_should_update :: "string \<Rightarrow> string \<Rightarrow> bool \<Rightarrow> bool" where
  "webhooks_should_update current_status new_status allow_override =
     (if current_status = new_status then True
      else if allow_override then True
      else if current_status \<in> set webhooks_TERMINAL_STATUSES then False
      else (let current_level =
                  (case map_of webhooks_STATUS_HIERARCHY current_status of None \<Rightarrow> 0 | Some n \<Rightarrow> n);
                new_level =
                  (case map_of webhooks_STATUS_HIERARCHY new_status of None \<Rightarrow> 0 | Some n \<Rightarrow> n)
            in if new_level < current_level then False else True))"

text \<open>\<^verbatim>\<open>get_update_fields\<close>: \<open>None\<close> or the dict \<^verbatim>\<open>{'status': new_status}\<close>.\<close>

definition get_update_fields :: "string \<Rightarrow> string \<Rightarrow> bool \<Rightarrow> (string \<times> string) list option" where
  "get_update_fields current_status new_status allow_override =
     (if \<not> should_update current_status new_status allow_override then None
      else Some [(''status'', new_status)])"

text \<open>The rank as the specification words it: INITIATED 1, PENDING 2, PROCESSING 3,
  SUCCESS 4, FAILED 4, every other status 0.\<close>

definition spec_rank :: "string \<Rightarrow> nat" where
  "spec_rank s =
     (if s = ''INITIATED'' then 1
      else if s = ''PENDING'' then 2
      else if s = ''PROCESSING'' then 3
      else if s = ''SUCCESS'' then 4
      else if s = ''FAILED'' then 4
      else 0)"

section \<open>Provider status normalization\<close>

text \<open>\<^verbatim>\<open>core_apps/integrations/paywithaccount/normalization.py\<close>. The mapping table is
  a dict from provider strings to pairs. \<^verbatim>\<open>settings.PAYWITHACCOUNT_STATUS_MAP\<close> is a
  parameter: \<open>None\<close> when the settings have no such attribute.\<close>

definition STATUS_SUCCESS :: string where "STATUS_SUCCESS = ''SUCCESS''"
definition STATUS_FAILED :: string where "STATUS_FAILED = ''FAILED''"
definition STATUS_PENDING :: string where "STATUS_PENDING = ''PENDING''"

type_synonym status_map = "(string \<times> (string \<times> bool)) list"

definition DEFAULT_STATUS_MAP :: status_map where
  "DEFAULT_STATUS_MAP =
     [(''SUCCESS'', (STATUS_SUCCESS, False)),
      (''SUCCESSFUL'', (STATUS_SUCCESS, False)),
      (''COMPLETED'', (STATUS_SUCCESS, False)),
      (''APPROVED'', (STATUS_SUCCESS, False)),
      (''CONFIRMED'', (STATUS_SUCCESS, False)),
      (''SETTLED'', (STATUS_SUCCESS, False)),
      (''PAID'', (STATUS_SUCCESS, False)),
      (''PROCESSED'', (STATUS_SUCCESS, False)),
      (''FAILED'', (STATUS_FAILED, False)),
      (''ERROR'', (STATUS_FAILED, False)),
      (''DECLINED'', (STATUS_FAILED, False)),
      (''REJECTED'', (STATUS_FAILED, False)),
      (''CANCELLED'', (STATUS_FAILED, False)),
      (''TIMEOUT'', (STATUS_FAILED, False)),
      (''EXPIRED'', (STATUS_FAILED, False)),
      (''ABORTED'', (STATUS_FAILED, False)),
      (''INVALID'', (STATUS_FAILED, False)),
      (''PENDING'', (STATUS_PENDING, False)),
      (''PROCESSING'', (STATUS_PENDING, False)),
      (''INITIATED'', (STATUS_PENDING, False)),
      (''IN_PROGRESS'', (STATUS_PENDING, False)),
      (''AWAITING'', (STATUS_PENDING, False)),
      (''QUEUED'', (STATUS_PENDING, False)),
      (''WAITINGFOROTP'', (STATUS_PENDING, True)),
      (''WAITING_FOR_OTP'', (STATUS_PENDING, True)),
      (''OTP_PENDING'', (STATUS_PENDING, True)),
      (''PENDINGVALIDATION'', (STATUS_PENDING, True)),
      (''PENDING_VALIDATION'', (STATUS_PENDING, True)),
      (''VALIDATION_REQUIRED'', (STATUS_PENDING, True)),
      (''AWAITING_VALIDATION'', (STATUS_PENDING, True)),
      (''REQUIRES_OTP'', (STATUS_PENDING, True)),
      (''OTP_REQUIRED'', (STATUS_PENDING, True))]"

definition get_status_map :: "status_map option \<Rightarrow> status_map" where
  "get_status_map settings_map =
     (case settings_map of Some m \<Rightarrow> m | None \<Rightarrow> DEFAULT_STATUS_MAP)"

text \<open>\<^verbatim>\<open>status_map[key]\<close> raises \<^verbatim>\<open>KeyError\<close> on a missing key.\<close>

definition dict_index :: "status_map \<Rightarrow> string \<Rightarrow> error + (string \<times> bool)" where
  "dict_index m key = (case map_of m key of None \<Rightarrow> Inl (KeyError (repr_str key)) | Some v \<Rightarrow> Inr v)"

definition normalize_provider_status :: "status_map option \<Rightarrow> json \<Rightarrow> error + (string \<times> bool)" where
  "normalize_provider_status settings_map raw_status =
     (if \<not> truthy raw_status \<or> \<not> is_str raw_status then Inr (STATUS_PENDING, False)
      else case str_upper raw_status of
        Inl e \<Rightarrow> Inl e
      | Inr u \<Rightarrow>
          (let normalized_key = py_strip u;
               status_map = get_status_map settings_map
           in if map_of status_map normalized_key \<noteq> None
              then dict_index status_map normalized_key
              else Inr (STATUS_PENDING, False)))"




section \<open>Field extraction from payloads\<close>

text \<open>\<^verbatim>\<open>core_apps/webhooks/utils.py\<close>. The leading underscore of the private helpers
  is dropped. \<^verbatim>\<open>_get_by_path\<close> tests \<^verbatim>\<open>isinstance(node, dict)\<close> before every
  \<^verbatim>\<open>node.get(key)\<close>.\<close>

fun get_by_path_loop :: "json \<Rightarrow> string list \<Rightarrow> error + json" where
  "get_by_path_loop node [] = Inr node"
| "get_by_path_loop node (key # path) =
     (if \<not> is_dict node then Inr JNull
      else case dict_get node key JNull of
        Inl e \<Rightarrow> Inl e
      | Inr node' \<Rightarrow> if node' = JNull then Inr JNull else get_by_path_loop node' path)"

definition get_by_path :: "json \<Rightarrow> string list \<Rightarrow> error + json" where
  "get_by_path payload path =
     (if \<not> is_dict payload then Inr JNull else get_by_path_loop payload path)"

text \<open>\<^verbatim>\<open>str(val)\<close> inside the \<^verbatim>\<open>try\<close> of \<^verbatim>\<open>_first_non_empty\<close>; the handler
  \<^verbatim>\<open>except Exception: continue\<close> is the \<open>Inl\<close> branch below.\<close>

definition str_of :: "json \<Rightarrow> error + string" where
  "str_of v = Inr (py_str v)"

fun first_non_empty :: "json \<Rightarrow> string list list \<Rightarrow> error + string option" where
  "first_non_empty payload [] = Inr None"
| "first_non_empty payload (path # paths) =
     (case get_by_path payload path of
        Inl e \<Rightarrow> Inl e
      | Inr val \<Rightarrow>
          if val = JNull then first_non_empty payload paths
          else (case (if is_str val then map_sum id py_strip (str_of val) else str_of val) of
                  Inl e \<Rightarrow> first_non_empty payload paths
                | Inr s \<Rightarrow> if s = [] then first_non_empty payload paths else Inr (Some s)))"

text \<open>\<^verbatim>\<open>_first_numeric\<close>. \<^verbatim>\<open>float(val)\<close> on a \<^verbatim>\<open>str\<close> is the interpreter's parser,
  a parameter here: \<open>None\<close> when it raises \<^verbatim>\<open>ValueError\<close>. \<^verbatim>\<open>bool\<close> is a subclass
  of \<^verbatim>\<open>int\<close>. A payload holds no \<^verbatim>\<open>Decimal\<close>. The result is a number or \<open>JNull\<close>.\<close>

fun is_number :: "json \<Rightarrow> bool" where
  "is_number (JInt n) = True"
| "is_number (JFloat r) = True"
| "is_number (JBool b) = True"
| "is_number _ = False"

definition float_of :: "(string \<Rightarrow> json option) \<Rightarrow> json \<Rightarrow> error + json" where
  "float_of parse v =
     (case v of
        JStr s \<Rightarrow> (case parse s of
                     None \<Rightarrow> Inl (ValueError (''could not convert string to float: '' @ repr_str s))
                   | Some f \<Rightarrow> Inr f)
      | _ \<Rightarrow> Inr v)"

fun first_numeric :: "(string \<Rightarrow> json option) \<Rightarrow> json \<Rightarrow> string list list \<Rightarrow> error + json" where
  "first_numeric parse payload [] = Inr JNull"
| "first_numeric parse payload (path # paths) =
     (case get_by_path payload path of
        Inl e \<Rightarrow> Inl e
      | Inr val \<Rightarrow>
          if val = JNull then first_numeric parse payload paths
          else if is_number val then Inr val
          else if is_str val then
            (case float_of parse val of
               Inl (ValueError m) \<Rightarrow> first_numeric parse payload paths
             | Inl (TypeError m) \<Rightarrow> first_numeric parse payload paths
             | Inl e \<Rightarrow> Inl e
             | Inr f \<Rightarrow> Inr f)
          else first_numeric parse payload paths)"

definition extract_request_ref :: "json \<Rightarrow> error + string option" where
  "extract_request_ref payload = first_non_empty payload
     [[''request_ref''], [''requestRef''], [''request_reference''], [''requestReference''], [''ref''],
      [''transaction'', ''request_ref''], [''transaction'', ''requestRef''],
      [''transaction'', ''reference''],
      [''data'', ''request_ref''], [''data'', ''requestRef''], [''data'', ''reference''],
      [''meta'', ''request_ref''], [''meta'', ''requestRef''],
      [''event'', ''request_ref''], [''event'', ''requestRef''],
      [''payload'', ''request_ref''], [''payload'', ''requestRef'']]"

definition extract_provider_ref :: "json \<Rightarrow> error + string option" where
  "extract_provider_ref payload = first_non_empty payload
     [[''provider_ref''], [''providerRef''], [''transaction_ref''], [''transactionRef''], [''txRef''],
      [''tx_ref''], [''reference''], [''ref''],
      [''flutterwave_ref''], [''flutterwaveRef''], [''paystack_ref''], [''paystackRef''],
      [''monnify_ref''], [''monnifyRef''],
      [''transaction'', ''reference''], [''transaction'', ''ref''],
      [''transaction'', ''transaction_ref''], [''transaction'', ''transactionRef''],
      [''data'', ''reference''], [''data'', ''transaction_ref''], [''data'', ''transactionRef''],
      [''data'', ''txRef''],
      [''meta'', ''provider_ref''], [''meta'', ''providerRef''],
      [''event'', ''reference'']]"

definition extract_status :: "json \<Rightarrow> error + string option" where
  "extract_status payload = first_non_empty payload
     [[''status''], [''transaction_status''], [''transactionStatus''], [''payment_status''],
      [''paymentStatus''], [''state''],
      [''transaction'', ''status''], [''transaction'', ''state''],
      [''data'', ''status''], [''data'', ''transaction_status''], [''data'', ''transactionStatus''],
      [''event'', ''status''], [''event'', ''state''],
      [''meta'', ''status''], [''response'', ''status'']]"

definition extract_amount :: "(string \<Rightarrow> json option) \<Rightarrow> json \<Rightarrow> error + json" where
  "extract_amount parse payload = first_numeric parse payload
     [[''amount''], [''value''], [''total''], [''total_amount''], [''totalAmount''],
      [''transaction_amount''], [''transactionAmount''], [''payable_amount''], [''payableAmount''],
      [''transaction'', ''amount''], [''transaction'', ''value''], [''transaction'', ''total''],
      [''data'', ''amount''], [''data'', ''value''], [''data'', ''total''],
      [''data'', ''transaction_amount''],
      [''meta'', ''amount''], [''meta'', ''value''],
      [''body'', ''amount''], [''body'', ''value'']]"

definition extract_currency :: "json \<Rightarrow> error + string option" where
  "extract_currency payload = first_non_empty payload
     [[''currency''], [''currency_code''], [''currencyCode''], [''currency_type''],
      [''currencyType''], [''curr''],
      [''transaction'', ''currency''], [''transaction'', ''currency_code''],
      [''data'', ''currency''], [''data'', ''currency_code''], [''data'', ''currencyCode''],
      [''meta'', ''currency''], [''body'', ''currency'']]"

definition extract_event_id :: "json \<Rightarrow> error + string option" where
  "extract_event_id payload = first_non_empty payload
     [[''event_id''], [''eventId''], [''event''], [''id''], [''webhook_id''], [''webhookId''],
      [''event_key''], [''eventKey''],
      [''flutterwave_event_id''], [''flutterwaveEventId''], [''paystack_reference''],
      [''monnify_transaction_ref''],
      [''event'', ''id''], [''event'', ''event_id''],
      [''data'', ''event_id''], [''data'', ''eventId''], [''data'', ''id''],
      [''meta'', ''event_id''], [''meta'', ''eventId''],
      [''payload'', ''event_id''], [''payload'', ''id'']]"

text \<open>\<^verbatim>\<open>PayloadParser\<close> of \<^verbatim>\<open>core_apps/webhooks/services.py\<close>. Its result is a dict
  with the three keys below. It calls \<^verbatim>\<open>payload.get\<close> and
  \<^verbatim>\<open>payload.get("meta", {}).get(...)\<close> with no type test.\<close>

record extracted =
  x_request_ref :: json
  x_provider_ref :: json
  x_status :: json

definition get2 :: "json \<Rightarrow> string \<Rightarrow> string \<Rightarrow> error + json" where
  "get2 payload outer inner =
     (case dict_get payload outer (JDict []) of
        Inl e \<Rightarrow> Inl e
      | Inr node \<Rightarrow> dict_get node inner JNull)"

definition extract_paywithaccount :: "json \<Rightarrow> error + extracted" where
  "extract_paywithaccount payload =
     (case py_or (dict_get payload ''request_ref'' JNull)
            (py_or (dict_get payload ''requestRef'' JNull)
            (py_or (dict_get payload ''ref'' JNull)
            (py_or (dict_get payload ''reference'' JNull)
                   (get2 payload ''meta'' ''request_ref'')))) of
        Inl e \<Rightarrow> Inl e
      | Inr request_ref \<Rightarrow>
     (case py_or (dict_get payload ''provider_ref'' JNull)
            (py_or (dict_get payload ''providerRef'' JNull)
            (py_or (dict_get payload ''transaction_ref'' JNull)
            (py_or (dict_get payload ''transactionRef'' JNull)
            (py_or (dict_get payload ''reference'' JNull)
            (py_or (dict_get payload ''txRef'' JNull)
                   (get2 payload ''data'' ''reference'')))))) of
        Inl e \<Rightarrow> Inl e
      | Inr provider_ref \<Rightarrow>
     (case py_or (dict_get payload ''status'' JNull)
            (py_or (get2 payload ''transaction'' ''status'')
            (py_or (get2 payload ''data'' ''status'')
                   (Inr (JStr ''unknown'')))) of
        Inl e \<Rightarrow> Inl e
      | Inr status \<Rightarrow>
          Inr \<lparr>x_request_ref = request_ref, x_provider_ref = provider_ref, x_status = status\<rparr>)))"

definition extract_generic :: "json \<Rightarrow> error + extracted" where
  "extract_generic payload =
     (case py_or (dict_get payload ''request_ref'' JNull)
            (py_or (dict_get payload ''requestRef'' JNull)
            (py_or (dict_get payload ''ref'' JNull)
                   (dict_get payload ''id'' JNull))) of
        Inl e \<Rightarrow> Inl e
      | Inr request_ref \<Rightarrow>
     (case py_or (dict_get payload ''provider_ref'' JNull)
            (py_or (dict_get payload ''providerRef'' JNull)
            (py_or (dict_get payload ''transaction_ref'' JNull)
                   (dict_get payload ''reference'' JNull))) of
        Inl e \<Rightarrow> Inl e
      | Inr provider_ref \<Rightarrow>
     (case dict_get payload ''status'' (JStr ''unknown'') of
        Inl e \<Rightarrow> Inl e
      | Inr status \<Rightarrow>
          Inr \<lparr>x_request_ref = request_ref, x_provider_ref = provider_ref, x_status = status\<rparr>)))"

definition extract_from_payload :: "json \<Rightarrow> string \<Rightarrow> error + extracted" where
  "extract_from_payload payload provider =
     (if py_lower provider \<in> set [''paywithaccount'', ''onepipe'']
      then extract_paywithaccount payload
      else extract_generic payload)"

section \<open>The stored rows\<close>

text \<open>
  The three tables the reconciliation path touches, each a list of rows, and the queue of
  the asynchronous worker. Primary keys (UUIDs in the source) are numbers. Amounts are
  decimals with two places, held in hundredths. A \<^verbatim>\<open>CharField\<close> holds a \<^verbatim>\<open>str\<close>: a
  value of another type assigned to it is stored as its \<^verbatim>\<open>str\<close>, and a nullable one
  keeps \<^verbatim>\<open>None\<close>. Column lengths and timestamps kept by the store are left out.

  Modelled from the spec: the field \<^verbatim>\<open>Collection.metadata\<close>. The class in
  \<^verbatim>\<open>core_apps/collections/models.py\<close> declares no such field, while the service, the
  serializers and the tests read and write it; the specification gives a Collection a
  free-form metadata dict, empty by default like \<^verbatim>\<open>Transaction.metadata\<close>.
\<close>

record collection =
  c_id :: nat
  c_request_ref :: string
  c_provider_ref :: "string option"
  c_status :: string
  c_amount_allocation :: int
  c_kore_fee :: int
  c_amount_total :: int
  c_raw_response :: json
  c_metadata :: "(string \<times> json) list"

record txn =
  t_id :: nat
  t_collection :: "nat option"
  t_type :: string
  t_amount :: int
  t_status :: string
  t_request_ref :: string

record webhook_event =
  e_id :: nat
  e_provider :: string
  e_event_id :: "string option"
  e_request_ref :: "string option"
  e_payload :: json
  e_signature :: string
  e_status :: string
  e_error :: string
  e_processed_at :: "string option"

record db =
  collections :: "collection list"
  transactions :: "txn list"
  webhook_events :: "webhook_event list"
  task_queue :: "nat list"

definition charfield :: "json \<Rightarrow> string option" where
  "charfield v = (if v = JNull then None else Some (py_str v))"

text \<open>\<^verbatim>\<open>Collection.objects.get(request_ref=...)\<close>.\<close>

definition collection_get :: "db \<Rightarrow> string \<Rightarrow> error + collection" where
  "collection_get d ref =
     (case filter (\<lambda>c. c_request_ref c = ref) (collections d) of
        [] \<Rightarrow> Inl (DoesNotExist ''Collection matching query does not exist.'')
      | [c] \<Rightarrow> Inr c
      | c # c' # cs \<Rightarrow> Inl (MultipleObjectsReturned ''get() returned more than one Collection''))"

text \<open>\<^verbatim>\<open>Collection.clean\<close> and \<^verbatim>\<open>Collection.save\<close>: every save validates the amounts
  first. With \<^verbatim>\<open>update_fields\<close> only the named columns of the row are written.\<close>

definition clean :: "collection \<Rightarrow> error + unit" where
  "clean c =
     (if c_amount_total c \<noteq> c_amount_allocation c + c_kore_fee c
      then Inl (ValidationError ''['amount_total must equal amount_allocation + kore_fee']'')
      else Inr ())"

definition write_field :: "collection \<Rightarrow> string \<Rightarrow> collection \<Rightarrow> collection" where
  "write_field inst f row =
     (if f = ''status'' then row\<lparr>c_status := c_status inst\<rparr>
      else if f = ''provider_ref'' then row\<lparr>c_provider_ref := c_provider_ref inst\<rparr>
      else if f = ''metadata'' then row\<lparr>c_metadata := c_metadata inst\<rparr>
      else if f = ''raw_response'' then row\<lparr>c_raw_response := c_raw_response inst\<rparr>
      else row)"

definition collection_save_fields :: "db \<Rightarrow> collection \<Rightarrow> string list \<Rightarrow> error + db" where
  "collection_save_fields d inst update_fields =
     (case clean inst of
        Inl e \<Rightarrow> Inl e
      | Inr u \<Rightarrow>
          Inr (d\<lparr>collections :=
                 map (\<lambda>row. if c_id row = c_id inst then fold (write_field inst) update_fields row
                            else row)
                     (collections d)\<rparr>))"

definition collection_save :: "db \<Rightarrow> collection \<Rightarrow> error + db" where
  "collection_save d inst =
     (case clean inst of
        Inl e \<Rightarrow> Inl e
      | Inr u \<Rightarrow>
          Inr (d\<lparr>collections :=
                 map (\<lambda>row. if c_id row = c_id inst then inst else row) (collections d)\<rparr>))"

text \<open>\<^verbatim>\<open>Transaction.objects.filter(collection=collection, status="PENDING").update(status=...)\<close>.\<close>

definition update_pending_transactions :: "db \<Rightarrow> nat \<Rightarrow> string \<Rightarrow> db" where
  "update_pending_transactions d cid new_status =
     d\<lparr>transactions :=
         map (\<lambda>t. if t_collection t = Some cid \<and> t_status t = ''PENDING''
                   then t\<lparr>t_status := new_status\<rparr> else t)
             (transactions d)\<rparr>"

section \<open>The collections service\<close>

text \<open>\<^verbatim>\<open>CollectionsService.update_collection_from_webhook\<close>. The arguments are what
  \<^verbatim>\<open>process_event\<close> extracted, so they are values of any type. The function runs in
  \<^verbatim>\<open>db_transaction.atomic\<close>: when it raises, no write remains, and the result is the
  exception alone.\<close>

definition webhook_status_map :: "(string \<times> string) list" where
  "webhook_status_map =
     [(''success'', ''SUCCESS''), (''completed'', ''SUCCESS''), (''failed'', ''FAILED''),
      (''pending'', ''INITIATED''), (''processing'', ''INITIATED''), (''initiated'', ''INITIATED'')]"

definition normalized_status_of :: "json \<Rightarrow> error + string" where
  "normalized_status_of new_status =
     (case str_lower new_status of
        Inl e \<Rightarrow> Inl e
      | Inr low \<Rightarrow>
          (case str_upper new_status of
             Inl e \<Rightarrow> Inl e
           | Inr up \<Rightarrow> Inr (case map_of webhook_status_map low of None \<Rightarrow> up | Some s \<Rightarrow> s)))"

definition transaction_status_of :: "string \<Rightarrow> string" where
  "transaction_status_of normalized_status =
     (case map_of [(''SUCCESS'', ''SUCCESS''), (''FAILED'', ''FAILED''), (''CANCELLED'', ''FAILED''),
                   (''INITIATED'', ''PENDING'')] normalized_status of
        None \<Rightarrow> ''PENDING'' | Some s \<Rightarrow> s)"

definition update_collection_from_webhook ::
  "db \<Rightarrow> json \<Rightarrow> json \<Rightarrow> json \<Rightarrow> json \<Rightarrow> json \<Rightarrow> bool \<Rightarrow> error + (collection \<times> db)" where
  "update_collection_from_webhook d request_ref provider_ref new_status payload response_body
       allow_override =
     (case normalized_status_of new_status of
        Inl e \<Rightarrow> Inl e
      | Inr normalized_status \<Rightarrow>
     (case collection_get d (py_str request_ref) of
        Inl (DoesNotExist m) \<Rightarrow>
          Inl (CollectionError (''Collection not found for request_ref='' @ py_str request_ref))
      | Inl e \<Rightarrow> Inl e
      | Inr collection0 \<Rightarrow>
          (let should = should_update (c_status collection0) normalized_status allow_override;
               update_fields0 = [''provider_ref'', ''metadata''];
               collection1 = (if should then collection0\<lparr>c_status := normalized_status\<rparr>
                              else collection0);
               update_fields1 = (if should then ''status'' # update_fields0 else update_fields0);
               collection2 = (if truthy provider_ref
                              then collection1\<lparr>c_provider_ref := charfield provider_ref\<rparr>
                              else collection1);
               collection3 = (if truthy response_body
                              then collection2\<lparr>c_raw_response := response_body\<rparr>
                              else collection2);
               update_fields2 = (if truthy response_body then update_fields1 @ [''raw_response'']
                                 else update_fields1);
               collection4 = (if map_of (c_metadata collection3) ''webhook_payload'' = None
                              then collection3\<lparr>c_metadata :=
                                     AList.update ''webhook_payload'' payload (c_metadata collection3)\<rparr>
                              else collection3)
           in case collection_save_fields d collection4 update_fields2 of
                Inl e \<Rightarrow> Inl e
              | Inr d1 \<Rightarrow>
                  if should
                  then Inr (collection4,
                            update_pending_transactions d1 (c_id collection4)
                              (transaction_status_of normalized_status))
                  else Inr (collection4, d1))))"

text \<open>The status that \<^verbatim>\<open>query_collection_status\<close> and \<^verbatim>\<open>validate_collection\<close> derive
  from a provider response: \<^verbatim>\<open>response_json.get('status') or
  response_json.get('transaction_status')\<close>, normalized; both branches of the final
  \<^verbatim>\<open>elif needs_validation\<close> give PENDING.\<close>

definition provider_new_status ::
  "status_map option \<Rightarrow> json \<Rightarrow> error + (string \<times> string \<times> bool)" where
  "provider_new_status settings_map response_json =
     (case py_or (dict_get response_json ''status'' JNull)
                 (dict_get response_json ''transaction_status'' JNull) of
        Inl e \<Rightarrow> Inl e
      | Inr provider_status \<Rightarrow>
          (case normalize_provider_status settings_map provider_status of
             Inl e \<Rightarrow> Inl e
           | Inr (normalized_status, needs_validation) \<Rightarrow>
               Inr (if normalized_status = ''SUCCESS'' then ''SUCCESS''
                    else if normalized_status = ''FAILED'' then ''FAILED''
                    else if needs_validation then ''PENDING''
                    else ''PENDING'',
                    normalized_status, needs_validation)))"

text \<open>The handlers that close both functions: a \<^verbatim>\<open>PayWithAccountError\<close> and any
  other exception leave as a \<^verbatim>\<open>CollectionError\<close>.\<close>

definition as_collection_error :: "string \<Rightarrow> string \<Rightarrow> error \<Rightarrow> error" where
  "as_collection_error provider_text other_text e =
     (case e of
        PayWithAccountError m \<Rightarrow> CollectionError (provider_text @ m)
      | _ \<Rightarrow> CollectionError (other_text @ exc_str e))"


text \<open>\<^verbatim>\<open>CollectionsService.validate_collection\<close>.\<close>

definition validation_fields_of :: "json \<Rightarrow> (string \<times> json) list" where
  "validation_fields_of response_json =
     (case response_json of
        JDict kvs \<Rightarrow>
          concat (map (\<lambda>field. case map_of kvs field of None \<Rightarrow> [] | Some v \<Rightarrow> [(field, v)])
                    [''validation_ref'', ''session_id'', ''otp_reference'', ''challenge_ref'',
                     ''auth_token''])
      | _ \<Rightarrow> [])"

definition validate_collection ::
  "status_map option \<Rightarrow> (error + json) \<Rightarrow> string \<Rightarrow> db \<Rightarrow> collection \<Rightarrow> error + (collection \<times> db)" where
  "validate_collection settings_map response now d collection =
     (if c_status collection \<noteq> ''PENDING''
      then Inl (CollectionError (''Collection status is '' @ c_status collection @
                                 '', must be PENDING to validate''))
      else if c_metadata collection = [] \<or>
              \<not> truthy (case map_of (c_metadata collection) ''needs_validation'' of
                          None \<Rightarrow> JNull | Some v \<Rightarrow> v)
      then Inl (CollectionError ''Collection does not require validation'')
      else
        (case (case response of
                 Inl e \<Rightarrow> Inl e
               | Inr response_json \<Rightarrow>
                   (case provider_new_status settings_map response_json of
                      Inl e \<Rightarrow> Inl e
                    | Inr (new_status, normalized_status, needs_validation) \<Rightarrow>
                        (let metadata1 =
                               AList.update ''validation_attempt_at'' (JStr now)
                                 (AList.update ''needs_validation'' (JBool needs_validation)
                                   (AList.update ''normalized_status'' (JStr normalized_status)
                                     (c_metadata collection)));
                             validation_fields = validation_fields_of response_json;
                             metadata2 =
                               (if needs_validation \<and> map_of metadata1 ''validation_fields'' = None
                                   \<and> validation_fields \<noteq> []
                                then AList.update ''validation_fields'' (JDict validation_fields) metadata1
                                else metadata1);
                             collection' = collection
                               \<lparr>c_status := new_status, c_raw_response := response_json,
                                c_metadata := metadata2\<rparr>
                         in case collection_save d collection' of
                              Inl e \<Rightarrow> Inl e
                            | Inr d1 \<Rightarrow>
                                Inr (collection',
                                     update_pending_transactions d1 (c_id collection')
                                       (if new_status = ''PENDING'' then ''PENDING'' else new_status))))) of
           Inl e \<Rightarrow>
             Inl (as_collection_error ''Validation failed with provider: ''
                    ''Unexpected error during validation: '' e)
         | Inr r \<Rightarrow> Inr r))"

section \<open>The processing lock\<close>

text \<open>
  \<^verbatim>\<open>ProcessingLock\<close> and \<^verbatim>\<open>processing_lock\<close> of \<^verbatim>\<open>webhooks/idempotency.py\<close>. The
  lock backend is outside the program: it is given by what it answers. \<open>NoRedis\<close>: no
  client (not configured, or the package is missing). \<open>ClientError\<close>: building the client
  raises. \<open>Redis replies released\<close>: the answers to the successive \<^verbatim>\<open>SET NX\<close> attempts
  that fit in \<^verbatim>\<open>wait_timeout\<close> (one every 100 ms, so finitely many), and the answer to
  the release script.
\<close>

datatype redis_reply = Granted | Busy | RedisFailure

datatype lock_backend = NoRedis | ClientError string | Redis "redis_reply list" redis_reply

definition acquire_db :: bool where
  "acquire_db = True"

fun acquire_redis :: "redis_reply list \<Rightarrow> bool" where
  "acquire_redis [] = False"
| "acquire_redis (Granted # replies) = True"
| "acquire_redis (RedisFailure # replies) = acquire_db"
| "acquire_redis (Busy # replies) = acquire_redis replies"

fun acquire :: "lock_backend \<Rightarrow> bool" where
  "acquire (Redis replies released) = acquire_redis replies"
| "acquire backend = acquire_db"

text \<open>\<^verbatim>\<open>release\<close> returns whether the lock was released; it handles every exception
  of the backend itself.\<close>

fun release :: "lock_backend \<Rightarrow> bool \<Rightarrow> bool" where
  "release backend False = False"
| "release (Redis replies released) True = (released = Granted)"
| "release backend True = True"

text \<open>The context manager: the constructor may raise; the result of
  \<^verbatim>\<open>lock.acquire()\<close> is not looked at; the body runs; \<^verbatim>\<open>finally\<close> releases. An
  exception of the body passes through.\<close>

definition processing_lock :: "lock_backend \<Rightarrow> (error + 'a) \<Rightarrow> error + 'a" where
  "processing_lock backend body =
     (case backend of
        ClientError m \<Rightarrow> Inl (ConnectionError m)
      | _ \<Rightarrow> (let acquired = acquire backend;
                  result = body;
                  released = release backend acquired
              in result))"

section \<open>Webhook ingestion\<close>

text \<open>\<^verbatim>\<open>WebhookService\<close> of \<^verbatim>\<open>core_apps/webhooks/services.py\<close>. \<open>now\<close> is
  \<^verbatim>\<open>timezone.now()\<close>.\<close>

definition event_get :: "db \<Rightarrow> nat \<Rightarrow> error + webhook_event" where
  "event_get d wid =
     (case filter (\<lambda>e. e_id e = wid) (webhook_events d) of
        [] \<Rightarrow> Inl (DoesNotExist ''WebhookEvent matching query does not exist.'')
      | e # es \<Rightarrow> Inr e)"

definition event_get_by_event_id :: "db \<Rightarrow> string \<Rightarrow> error + webhook_event" where
  "event_get_by_event_id d eid =
     (case filter (\<lambda>e. e_event_id e = Some eid) (webhook_events d) of
        [] \<Rightarrow> Inl (DoesNotExist ''WebhookEvent matching query does not exist.'')
      | [e] \<Rightarrow> Inr e
      | e # e' # es \<Rightarrow> Inl (MultipleObjectsReturned ''get() returned more than one WebhookEvent''))"

definition event_save :: "db \<Rightarrow> webhook_event \<Rightarrow> db" where
  "event_save d ev =
     d\<lparr>webhook_events :=
         map (\<lambda>row. if e_id row = e_id ev
                     then row\<lparr>e_status := e_status ev, e_error := e_error ev,
                              e_processed_at := e_processed_at ev\<rparr>
                     else row)
             (webhook_events d)\<rparr>"

definition mark_failed :: "db \<Rightarrow> webhook_event \<Rightarrow> string \<Rightarrow> string \<Rightarrow> webhook_event \<times> db" where
  "mark_failed d webhook_event text now =
     (let ev = webhook_event\<lparr>e_status := ''FAILED'', e_error := text, e_processed_at := Some now\<rparr>
      in (ev, event_save d ev))"

text \<open>The status handed to the collections service: the extracted one, or "pending"
  when the extracted one is falsy.\<close>

definition status_argument :: "json \<Rightarrow> json" where
  "status_argument status = (if \<not> truthy status then JStr ''pending'' else status)"

definition provider_ref_argument :: "json \<Rightarrow> json" where
  "provider_ref_argument provider_ref = (if truthy provider_ref then provider_ref else JStr [])"

text \<open>The \<^verbatim>\<open>try\<close> block of \<^verbatim>\<open>process_event\<close> up to the update of the collection:
  the update under the lock, and once more without it when anything in the
  \<^verbatim>\<open>with\<close> statement raised.\<close>

definition process_update :: "lock_backend \<Rightarrow> db \<Rightarrow> webhook_event \<Rightarrow> error + (collection \<times> db)" where
  "process_update backend d webhook_event =
     (let payload = e_payload webhook_event
      in case extract_from_payload payload (e_provider webhook_event) of
           Inl e \<Rightarrow> Inl e
         | Inr extracted \<Rightarrow>
             (let request_ref = x_request_ref extracted;
                  provider_ref = x_provider_ref extracted;
                  status = x_status extracted
              in if \<not> truthy request_ref
                 then Inl (WebhookError ''Could not extract request_ref from webhook payload'')
                 else
                   (case processing_lock backend
                           (update_collection_from_webhook d request_ref
                              (provider_ref_argument provider_ref) (status_argument status)
                              payload JNull False) of
                      Inr r \<Rightarrow> Inr r
                    | Inl lock_err \<Rightarrow>
                        update_collection_from_webhook d request_ref
                          (provider_ref_argument provider_ref) (status_argument status)
                          payload JNull False)))"

definition process_event ::
  "lock_backend \<Rightarrow> string \<Rightarrow> db \<Rightarrow> nat \<Rightarrow> error + (webhook_event \<times> db)" where
  "process_event backend now d webhook_event_id =
     (case event_get d webhook_event_id of
        Inl e \<Rightarrow> Inl (WebhookError (''WebhookEvent not found: '' @ str_nat webhook_event_id))
      | Inr webhook_event \<Rightarrow>
          (case process_update backend d webhook_event of
             Inr (collection, d1) \<Rightarrow>
               (let ev = webhook_event\<lparr>e_status := ''PROCESSED'', e_processed_at := Some now\<rparr>
                in Inr (ev,
                        d1\<lparr>webhook_events :=
                             map (\<lambda>row. if e_id row = e_id ev
                                         then row\<lparr>e_status := e_status ev,
                                                  e_processed_at := e_processed_at ev\<rparr>
                                         else row)
                                 (webhook_events d1)\<rparr>))
           | Inl (CollectionError m) \<Rightarrow>
               Inr (mark_failed d webhook_event (''CollectionError: '' @ m) now)
           | Inl (PayWithAccountError m) \<Rightarrow>
               Inr (mark_failed d webhook_event (''PayWithAccountError: '' @ m) now)
           | Inl e \<Rightarrow>
               Inr (mark_failed d webhook_event (''Unexpected error: '' @ exc_str e) now)))"


text \<open>\<^verbatim>\<open>WebhookEvent.objects.create\<close>: the new row gets a fresh key; the unique
  column \<^verbatim>\<open>event_id\<close> refuses a second row with the same value that is not NULL.\<close>

definition fresh_id :: "db \<Rightarrow> nat" where
  "fresh_id d = Suc (fold max (map e_id (webhook_events d)) 0)"

definition event_create ::
  "db \<Rightarrow> string \<Rightarrow> string option \<Rightarrow> string option \<Rightarrow> json \<Rightarrow> string \<Rightarrow> error + (webhook_event \<times> db)" where
  "event_create d provider event_id request_ref payload signature =
     (if event_id \<noteq> None \<and> event_id \<in> set (map e_event_id (webhook_events d))
      then Inl (IntegrityError ''UNIQUE constraint failed: webhooks_webhookevent.event_id'')
      else (let ev = \<lparr>e_id = fresh_id d, e_provider = provider, e_event_id = event_id,
                      e_request_ref = request_ref, e_payload = payload, e_signature = signature,
                      e_status = ''RECEIVED'', e_error = [], e_processed_at = None\<rparr>
            in Inr (ev, d\<lparr>webhook_events := webhook_events d @ [ev]\<rparr>)))"

text \<open>The end of both entry points: hand the event to the worker when Celery is
  there, else process it inline. \<^verbatim>\<open>receive_event\<close> lets an exception of the inline
  call pass; \<^verbatim>\<open>receive_paywithaccount_event\<close> swallows it.\<close>

definition dispatch ::
  "bool \<Rightarrow> lock_backend \<Rightarrow> string \<Rightarrow> db \<Rightarrow> webhook_event \<Rightarrow> error + db" where
  "dispatch celery backend now d webhook_event =
     (if celery then Inr (d\<lparr>task_queue := task_queue d @ [e_id webhook_event]\<rparr>)
      else case process_event backend now d (e_id webhook_event) of
             Inl e \<Rightarrow> Inl e
           | Inr (ev, d1) \<Rightarrow> Inr d1)"

text \<open>\<^verbatim>\<open>verify_signature\<close>: the HMAC-SHA256 hex digest is a parameter.\<close>

definition verify_signature ::
  "string \<Rightarrow> (string \<Rightarrow> string \<Rightarrow> string) \<Rightarrow> string \<Rightarrow> string \<Rightarrow> string \<Rightarrow> bool" where
  "verify_signature webhook_secret hmac_sha256 payload_str signature_header provider =
     (if webhook_secret = [] then True
      else if py_lower provider \<in> set [''paywithaccount'', ''onepipe'']
      then hmac_sha256 webhook_secret payload_str = signature_header
      else True)"

text \<open>The part of \<^verbatim>\<open>receive_event\<close> after the duplicate check: the insert, and the
  handler of the \<^verbatim>\<open>IntegrityError\<close> of a lost race.\<close>

definition receive_event_store ::
  "bool \<Rightarrow> lock_backend \<Rightarrow> string \<Rightarrow> db \<Rightarrow> string \<Rightarrow> json \<Rightarrow> string option \<Rightarrow> string option \<Rightarrow>
     string option \<Rightarrow> error + (webhook_event \<times> db)" where
  "receive_event_store celery backend now d provider payload signature_header request_ref event_id =
     (case event_create d provider event_id request_ref payload
             (case signature_header of Some s \<Rightarrow> s | None \<Rightarrow> []) of
        Inl (IntegrityError m) \<Rightarrow>
          (case event_id of
             Some eid \<Rightarrow>
               if eid \<noteq> []
               then (case event_get_by_event_id d eid of
                       Inl e \<Rightarrow> Inl e
                     | Inr webhook_event \<Rightarrow> Inr (webhook_event, d))
               else Inl (IntegrityError m)
           | None \<Rightarrow> Inl (IntegrityError m))
      | Inl e \<Rightarrow> Inl e
      | Inr (webhook_event, d1) \<Rightarrow>
          (case dispatch celery backend now d1 webhook_event of
             Inl e \<Rightarrow> Inl e
           | Inr d2 \<Rightarrow> Inr (webhook_event, d2)))"

definition receive_event ::
  "string \<Rightarrow> (string \<Rightarrow> string \<Rightarrow> string) \<Rightarrow> bool \<Rightarrow> lock_backend \<Rightarrow> string \<Rightarrow> db \<Rightarrow> string \<Rightarrow> json \<Rightarrow>
     string option \<Rightarrow> string option \<Rightarrow> string option \<Rightarrow> string option \<Rightarrow>
     error + (webhook_event \<times> db)" where
  "receive_event webhook_secret hmac_sha256 celery backend now d provider payload signature_header
       request_ref event_id payload_str =
     (if (case (signature_header, payload_str) of
            (Some sig, Some body) \<Rightarrow>
              sig \<noteq> [] \<and> body \<noteq> [] \<and> \<not> verify_signature webhook_secret hmac_sha256 body sig provider
          | _ \<Rightarrow> False)
      then Inl (WebhookError ''Webhook signature verification failed'')
      else
        (case extract_from_payload payload provider of
           Inl e \<Rightarrow> Inl e
         | Inr extracted \<Rightarrow>
             (let request_ref1 =
                    (if (request_ref = None \<or> request_ref = Some []) \<and> truthy (x_request_ref extracted)
                     then charfield (x_request_ref extracted) else request_ref)
              in case (if event_id = None \<or> event_id = Some [] then extract_event_id payload
                       else Inr event_id) of
                   Inl e \<Rightarrow> Inl e
                 | Inr event_id1 \<Rightarrow>
                     (case (case event_id1 of
                              Some eid \<Rightarrow> if eid \<noteq> [] then event_get_by_event_id d eid
                                          else Inl (DoesNotExist [])
                            | None \<Rightarrow> Inl (DoesNotExist [])) of
                        Inr existing_event \<Rightarrow> Inr (existing_event, d)
                      | Inl (DoesNotExist m) \<Rightarrow>
                          receive_event_store celery backend now d provider payload signature_header
                            request_ref1 event_id1
                      | Inl e \<Rightarrow> Inl e))))"



section \<open>The specification's transaction mapping, and example rows\<close>








section \<open>Properties of the state machine\<close>

lemma hierarchy_get_spec_rank: "hierarchy_get s 0 = spec_rank s"
  by (simp add: hierarchy_get_def STATUS_HIERARCHY_def spec_rank_def)

lemma webhooks_should_update_eq: "webhooks_should_update c p a = should_update c p a"
  by (simp add: webhooks_should_update_def should_update_def hierarchy_get_def
      webhooks_STATUS_HIERARCHY_def STATUS_HIERARCHY_def
      webhooks_TERMINAL_STATUSES_def TERMINAL_STATUSES_def)

lemma should_update_iff:
  "should_update c p a \<longleftrightarrow>
     c = p \<or> a \<or> (c \<notin> {''SUCCESS'', ''FAILED''} \<and> spec_rank c \<le> spec_rank p)"
  by (auto simp add: should_update_def hierarchy_get_spec_rank TERMINAL_STATUSES_def Let_def)

text \<open>
  C1. For all status strings \<open>current\<close> and \<open>proposed\<close> and every \<open>allow_override\<close>,
  \<open>should_update\<close> (in both modules) is true exactly when \<open>current = proposed\<close>, or
  \<open>allow_override\<close> holds, or \<open>current\<close> is neither SUCCESS nor FAILED and the rank of
  \<open>proposed\<close> is at least the rank of \<open>current\<close>; SUCCESS to PENDING is refused, SUCCESS to
  SUCCESS and INITIATED to FAILED are admitted. The function is a total boolean function
  of its arguments: its body has no operation that raises on strings.
\<close>

theorem should_update_characterisation:
  "(should_update current proposed allow_override \<longleftrightarrow>
      current = proposed \<or> allow_override \<or>
      (current \<notin> {''SUCCESS'', ''FAILED''} \<and> spec_rank current \<le> spec_rank proposed))
   \<and> webhooks_should_update current proposed allow_override =
       should_update current proposed allow_override
   \<and> should_update ''SUCCESS'' ''PENDING'' False = False
   \<and> should_update ''SUCCESS'' ''SUCCESS'' False = True
   \<and> should_update ''INITIATED'' ''FAILED'' False = True"
  by (simp add: should_update_iff webhooks_should_update_eq spec_rank_def)


section \<open>Properties of the status normalizer\<close>
















text \<open>With a mapping table from the settings the result is a pair from that table or
  the default pair; its status lies in the enum when the table's statuses do.\<close>

lemma normalize_override_total:
  assumes "\<forall>k v. map_of m k = Some v \<longrightarrow> fst v \<in> {''SUCCESS'', ''FAILED'', ''PENDING''}"
  shows "\<exists>st b. normalize_provider_status (Some m) x = Inr (st, b) \<and>
           st \<in> {''SUCCESS'', ''FAILED'', ''PENDING''}"
proof (cases "truthy x \<and> is_str x")
  case False
  then show ?thesis
    by (auto simp add: normalize_provider_status_def STATUS_PENDING_def)
next
  case True
  then obtain s where x: "x = JStr s" "s \<noteq> []" by (cases x) auto
  show ?thesis
  proof (cases "map_of m (py_strip (py_upper s))")
    case None
    with x show ?thesis
      by (auto simp add: normalize_provider_status_def STATUS_PENDING_def get_status_map_def)
  next
    case (Some v)
    with assms have "fst v \<in> {''SUCCESS'', ''FAILED'', ''PENDING''}" by blast
    with Some x show ?thesis
      by (cases v)
         (auto simp add: normalize_provider_status_def get_status_map_def dict_index_def)
  qed
qed



section \<open>Properties of the field extractors\<close>

lemma dict_get_is_dict: "is_dict node \<Longrightarrow> \<exists>v. dict_get node key d = Inr v"
  by (cases node) auto

lemma get_by_path_loop_ok: "\<exists>v. get_by_path_loop node path = Inr v"
proof (induction node path rule: get_by_path_loop.induct)
  case (1 node)
  show ?case by simp
next
  case (2 node key path)
  show ?case
  proof (cases "is_dict node")
    case False
    then show ?thesis by simp
  next
    case True
    then obtain v where v: "dict_get node key JNull = Inr v"
      using dict_get_is_dict by blast
    with True 2 show ?thesis by (cases "v = JNull") auto
  qed
qed

lemma get_by_path_ok: "\<exists>v. get_by_path payload path = Inr v"
  by (simp add: get_by_path_def get_by_path_loop_ok)

lemma first_non_empty_ok: "\<exists>r. first_non_empty payload paths = Inr r"
proof (induction paths)
  case Nil
  show ?case by simp
next
  case (Cons path paths)
  obtain v where v: "get_by_path payload path = Inr v"
    using get_by_path_ok by blast
  show ?case using Cons v by (auto simp add: str_of_def)
qed

lemma first_numeric_ok: "\<exists>r. first_numeric parse payload paths = Inr r"
proof (induction paths)
  case Nil
  show ?case by simp
next
  case (Cons path paths)
  obtain v where v: "get_by_path payload path = Inr v"
    using get_by_path_ok by blast
  show ?case using Cons v
    by (cases v) (auto simp add: float_of_def split: option.splits)
qed

lemma first_non_empty_not_found: "\<not> is_dict payload \<Longrightarrow> first_non_empty payload paths = Inr None"
  by (induction paths) (auto simp add: get_by_path_def)

lemma first_numeric_not_found: "\<not> is_dict payload \<Longrightarrow> first_numeric parse payload paths = Inr JNull"
  by (induction paths) (auto simp add: get_by_path_def)


text \<open>The helpers of \<^verbatim>\<open>webhooks/utils.py\<close> return on every value, and return "not
  found" on a payload that is not a dict.\<close>

lemma utils_extractors_total:
  "(\<exists>r. extract_request_ref p = Inr r) \<and> (\<exists>r. extract_provider_ref p = Inr r)
   \<and> (\<exists>r. extract_status p = Inr r) \<and> (\<exists>r. extract_amount parse p = Inr r)
   \<and> (\<exists>r. extract_currency p = Inr r) \<and> (\<exists>r. extract_event_id p = Inr r)"
  unfolding extract_request_ref_def extract_provider_ref_def extract_status_def
    extract_amount_def extract_currency_def extract_event_id_def
  by (intro conjI first_non_empty_ok first_numeric_ok)

lemma utils_extractors_non_dict:
  "\<not> is_dict p \<Longrightarrow>
     extract_request_ref p = Inr None \<and> extract_provider_ref p = Inr None
     \<and> extract_status p = Inr None \<and> extract_amount parse p = Inr JNull
     \<and> extract_currency p = Inr None \<and> extract_event_id p = Inr None"
  unfolding extract_request_ref_def extract_provider_ref_def extract_status_def
    extract_amount_def extract_currency_def extract_event_id_def
  by (intro conjI first_non_empty_not_found first_numeric_not_found)

text \<open>
  C6. Every payload field extractor returns "not found" and never raises on malformed
  input. The helpers of \<^verbatim>\<open>webhooks/utils.py\<close> do (the two lemmas above). The
  \<^verbatim>\<open>PayloadParser\<close> does not: on the payload \<^verbatim>\<open>{"meta": null}\<close> the expression
  \<^verbatim>\<open>payload.get("meta", {}).get("request_ref")\<close> raises \<^verbatim>\<open>AttributeError\<close>, and so
  does \<^verbatim>\<open>payload.get\<close> on a payload that is a list.
\<close>

theorem payload_parser_raises:
  "extract_paywithaccount (JDict [(''meta'', JNull)]) = Inl (no_attribute JNull ''get'')
   \<and> extract_from_payload (JDict [(''meta'', JNull)]) ''paywithaccount''
       = Inl (no_attribute JNull ''get'')
   \<and> extract_from_payload (JList []) ''paywithaccount'' = Inl (no_attribute (JList []) ''get'')
   \<and> extract_from_payload (JList []) ''other'' = Inl (no_attribute (JList []) ''get'')
   \<and> extract_request_ref (JDict [(''meta'', JNull)]) = Inr None"
  by code_simp

text \<open>
  C7. \<^verbatim>\<open>extract_event_id({"event": {"id": "fw_evt_999"}})\<close> is to return
  \<^verbatim>\<open>"fw_evt_999"\<close>. The candidate path \<^verbatim>\<open>["event"]\<close> comes before
  \<^verbatim>\<open>["event", "id"]\<close>, finds the inner dict, and \<^verbatim>\<open>str\<close> of that dict is returned.
  The payload \<^verbatim>\<open>{"some_other_field": "value"}\<close> gives \<^verbatim>\<open>None\<close>.
\<close>

theorem extract_event_id_nested_event:
  "extract_event_id (JDict [(''event'', JDict [(''id'', JStr ''fw_evt_999'')])])
     = Inr (Some ''{'id': 'fw_evt_999'}'')
   \<and> extract_event_id (JDict [(''event'', JDict [(''id'', JStr ''fw_evt_999'')])])
     \<noteq> Inr (Some ''fw_evt_999'')
   \<and> extract_event_id (JDict [(''some_other_field'', JStr ''value'')]) = Inr None"
  by code_simp


section \<open>Properties of the collections service\<close>


lemma clean_amounts [simp]:
  "clean (c\<lparr>c_status := s\<rparr>) = clean c"
  "clean (c\<lparr>c_provider_ref := p\<rparr>) = clean c"
  "clean (c\<lparr>c_raw_response := r\<rparr>) = clean c"
  "clean (c\<lparr>c_metadata := m\<rparr>) = clean c"
  by (simp_all add: clean_def)


lemma status_after_update:
  assumes "update_collection_from_webhook d request_ref provider_ref new_status payload response_body
             allow_override = Inr (c, d')"
      and ns: "normalized_status_of new_status = Inr ns"
      and c0: "collection_get d (py_str request_ref) = Inr c0"
  shows "c_status c = (if should_update (c_status c0) ns allow_override then ns else c_status c0)
         \<and> c_id c = c_id c0 \<and> webhook_events d' = webhook_events d \<and> task_queue d' = task_queue d"
  using assms(1)
  unfolding update_collection_from_webhook_def ns c0 Let_def sum.case collection_save_fields_def
  by (auto simp add: update_pending_transactions_def split: sum.splits if_splits)






section \<open>Properties of webhook processing\<close>





















section \<open>Monotonicity of the collection status\<close>

text \<open>The webhook path and the validation path only move a status forward.\<close>

lemma webhook_update_monotone:
  assumes upd: "update_collection_from_webhook d request_ref provider_ref new_status payload
                  response_body False = Inr (c, d')"
      and ns: "normalized_status_of new_status = Inr ns"
      and c0: "collection_get d (py_str request_ref) = Inr c0"
  shows "spec_rank (c_status c0) \<le> spec_rank (c_status c)
         \<and> (c_status c0 \<in> {''SUCCESS'', ''FAILED''} \<longrightarrow> c_status c = c_status c0)"
  using status_after_update [OF upd ns c0]
  by (cases "should_update (c_status c0) ns False") (auto simp add: should_update_iff)

lemma provider_new_status_range:
  "provider_new_status settings_map response_json = Inr (new_status, normalized_status, nv) \<Longrightarrow>
     new_status \<in> {''SUCCESS'', ''FAILED'', ''PENDING''}"
  by (auto simp add: provider_new_status_def split: sum.splits if_splits)

lemma validate_collection_monotone:
  assumes "validate_collection settings_map response now d c0 = Inr (c, d')"
  shows "c_status c0 = ''PENDING'' \<and> c_status c \<in> {''SUCCESS'', ''FAILED'', ''PENDING''}
         \<and> spec_rank (c_status c0) \<le> spec_rank (c_status c)"
proof -
  have p: "c_status c0 = ''PENDING''"
    using assms by (auto simp add: validate_collection_def split: if_splits)
  obtain response_json new_status normalized_status nv where
    r: "provider_new_status settings_map response_json = Inr (new_status, normalized_status, nv)"
    and s: "c_status c = new_status"
    using assms
    by (auto simp add: validate_collection_def Let_def collection_save_def
        split: if_splits sum.splits)
  from provider_new_status_range [OF r] s p show ?thesis
    by (auto simp add: spec_rank_def)
qed


section \<open>Duplicate deliveries\<close>

lemma event_get_by_event_id_member:
  assumes "event_get_by_event_id d eid = Inr w"
  shows "w \<in> set (webhook_events d) \<and> e_event_id w = Some eid"
proof -
  from assms have "filter (\<lambda>e. e_event_id e = Some eid) (webhook_events d) = [w]"
    by (auto simp add: event_get_by_event_id_def split: list.splits)
  then have "w \<in> set (filter (\<lambda>e. e_event_id e = Some eid) (webhook_events d))"
    by simp
  then show ?thesis by simp
qed

text \<open>\<^verbatim>\<open>receive_event\<close> on a delivery whose event id is already stored returns the
  stored row and changes nothing: no insert, no processing.\<close>

lemma receive_event_duplicate:
  assumes sig: "signature_header = None \<or> payload_str = None"
      and ex: "extract_from_payload payload provider = Inr x"
      and eid: "(if event_id = None \<or> event_id = Some [] then extract_event_id payload
                 else Inr event_id) = Inr (Some eid)"
      and ne: "eid \<noteq> []"
      and w: "event_get_by_event_id d eid = Inr w"
  shows "receive_event webhook_secret hmac_sha256 celery backend now d provider payload
           signature_header request_ref event_id payload_str = Inr (w, d)"
proof -
  have s: "(case (signature_header, payload_str) of
            (Some sig, Some body) \<Rightarrow>
              sig \<noteq> [] \<and> body \<noteq> [] \<and> \<not> verify_signature webhook_secret hmac_sha256 body sig provider
          | _ \<Rightarrow> False) = False"
    using sig by (auto split: option.splits)
  show ?thesis
    unfolding receive_event_def s
    by (simp add: ex eid ne w Let_def)
qed

text \<open>The insert that loses the race: another delivery stored the event id after the
  duplicate check. The unique column refuses the insert and the stored row is returned.\<close>

lemma receive_event_lost_race:
  assumes ne: "eid \<noteq> []"
      and w: "event_get_by_event_id d eid = Inr w"
  shows "receive_event_store celery backend now d provider payload signature_header request_ref
           (Some eid) = Inr (w, d)"
proof -
  have "Some eid \<in> set (map e_event_id (webhook_events d))"
    using event_get_by_event_id_member [OF w] by force
  then show ?thesis
    by (simp add: receive_event_store_def event_create_def ne w)
qed



end
